theory Spec2Isabelle
  imports Main "HOL-Library.AList"
begin

section \<open>Python values\<close>

text \<open>
  The values that \<^verbatim>\<open>yaml.safe_load\<close> and \<^verbatim>\<open>json.loads\<close> hand to the program: \<^verbatim>\<open>None\<close>,
  booleans, unbounded integers, strings, lists and dictionaries. Dictionaries are keyed by
  strings, as the annotations \<^verbatim>\<open>Dict[str, Any]\<close> of the source say, and are association
  lists in insertion order; \<open>map_of\<close> is the lookup and \<open>AList.update\<close> is the item
  assignment \<^verbatim>\<open>d[k] = v\<close> (the key keeps its place when present and goes last otherwise).
  A string is a list of characters with code points below 256. Floats and timestamps are
  left out.
\<close>

datatype pyval =
    PNone
  | PBool bool
  | PInt int
  | PStr string
  | PList "pyval list"
  | PDict "(string \<times> pyval) list"

type_synonym pydict = "(string \<times> pyval) list"

text \<open>Truth value testing, as \<^verbatim>\<open>x or y\<close> uses it.\<close>

fun truthy :: "pyval \<Rightarrow> bool" where
  "truthy PNone = False"
| "truthy (PBool b) = b"
| "truthy (PInt i) = (i \<noteq> 0)"
| "truthy (PStr s) = (s \<noteq> [])"
| "truthy (PList xs) = (xs \<noteq> [])"
| "truthy (PDict d) = (d \<noteq> [])"

definition py_or :: "pyval \<Rightarrow> pyval \<Rightarrow> pyval" where
  "py_or a b = (if truthy a then a else b)"

text \<open>\<^verbatim>\<open>d.get(k, default)\<close>.\<close>

definition dict_get :: "pydict \<Rightarrow> string \<Rightarrow> pyval \<Rightarrow> pyval" where
  "dict_get d k dflt = (case map_of d k of None \<Rightarrow> dflt | Some v \<Rightarrow> v)"

subsection \<open>Text of a value: \<^verbatim>\<open>str\<close> and \<^verbatim>\<open>repr\<close>\<close>

definition digit_char :: "nat \<Rightarrow> char" where
  "digit_char n = ''0123456789abcdef'' ! n"

fun str_of_nat :: "nat \<Rightarrow> string" where
  "str_of_nat n =
     (if n < 10 then [digit_char n] else str_of_nat (n div 10) @ [digit_char (n mod 10)])"

definition str_of_int :: "int \<Rightarrow> string" where
  "str_of_int i = (if i < 0 then CHR ''-'' # str_of_nat (nat (- i)) else str_of_nat (nat i))"

text \<open>
  Below code point 256 the characters that \<^verbatim>\<open>repr\<close> escapes are the control characters
  (0 to 31, 127 to 159), the no-break space (160) and the soft hyphen (173).
\<close>

definition printable :: "char \<Rightarrow> bool" where
  "printable c =
     (let n = (of_char c :: nat) in (32 \<le> n \<and> n < 127) \<or> (161 \<le> n \<and> n \<noteq> 173))"

definition repr_char :: "char \<Rightarrow> char \<Rightarrow> string" where
  "repr_char quote c =
     (if c = quote \<or> c = CHR 0x5C then [CHR 0x5C, c]
      else if c = CHR 0x09 then [CHR 0x5C, CHR ''t'']
      else if c = CHR 0x0A then [CHR 0x5C, CHR ''n'']
      else if c = CHR 0x0D then [CHR 0x5C, CHR ''r'']
      else if printable c then [c]
      else [CHR 0x5C, CHR ''x'', digit_char (of_char c div 16), digit_char (of_char c mod 16)])"

text \<open>Single quotes, unless the string has a single quote and no double quote.\<close>

definition repr_str :: "string \<Rightarrow> string" where
  "repr_str s =
     (let quote = (if CHR 0x27 \<in> set s \<and> CHR 0x22 \<notin> set s then CHR 0x22 else CHR 0x27)
      in quote # concat (map (repr_char quote) s) @ [quote])"

fun join :: "string \<Rightarrow> string list \<Rightarrow> string" where
  "join sep [] = []"
| "join sep [x] = x"
| "join sep (x # y # ys) = x @ sep @ join sep (y # ys)"

fun py_repr :: "pyval \<Rightarrow> string" where
  "py_repr PNone = ''None''"
| "py_repr (PBool b) = (if b then ''True'' else ''False'')"
| "py_repr (PInt i) = str_of_int i"
| "py_repr (PStr s) = repr_str s"
| "py_repr (PList xs) = ''['' @ join '', '' (map py_repr xs) @ '']''"
| "py_repr (PDict kvs) =
     ''{'' @ join '', '' (map (\<lambda>kv. repr_str (fst kv) @ '': '' @ py_repr (snd kv)) kvs) @ ''}''"

text \<open>\<^verbatim>\<open>f"{v}"\<close> is \<^verbatim>\<open>str(v)\<close>: a string as it is, any other value as its \<^verbatim>\<open>repr\<close>.\<close>

definition py_str :: "pyval \<Rightarrow> string" where
  "py_str v = (case v of PStr s \<Rightarrow> s | _ \<Rightarrow> py_repr v)"

section \<open>Exceptions\<close>

datatype error =
    ValueError_agents_key
      \<comment> \<open>\<^verbatim>\<open>ValueError("Workflow YAML must contain a top-level `agents` list.")\<close>\<close>
  | ValueError_position nat
      \<comment> \<open>\<^verbatim>\<open>ValueError(f"Agent definition at position {idx} is malformed.")\<close>\<close>
  | KeyError_not_registered pyval
      \<comment> \<open>\<^verbatim>\<open>KeyError(f"Agent '{name}' is not registered.")\<close>\<close>
  | NotImplementedError
      \<comment> \<open>\<^verbatim>\<open>NotImplementedError("Sub-classes must implement `process`.")\<close>\<close>
  | TypeError
      \<comment> \<open>raised by Python itself: a value that is not iterable, a key that is not hashable\<close>
  | AttributeError
      \<comment> \<open>raised by Python itself: \<^verbatim>\<open>.get\<close> on a value that is not a dictionary\<close>

text \<open>
  What a \<^verbatim>\<open>for\<close> loop iterates over: the elements of a list, the characters of a string,
  the keys of a dictionary. The other values are not iterable.
\<close>

fun py_iter :: "pyval \<Rightarrow> error + pyval list" where
  "py_iter (PList xs) = Inr xs"
| "py_iter (PStr s) = Inr (map (\<lambda>c. PStr [c]) s)"
| "py_iter (PDict d) = Inr (map (\<lambda>kv. PStr (fst kv)) d)"
| "py_iter PNone = Inl TypeError"
| "py_iter (PBool b) = Inl TypeError"
| "py_iter (PInt i) = Inl TypeError"

section \<open>The registry (\<^verbatim>\<open>__init__.py\<close>)\<close>

text \<open>
  An agent class is its \<^verbatim>\<open>__name__\<close>, its constructor \<^verbatim>\<open>__init__\<close> and its \<^verbatim>\<open>process\<close>
  method. The constructor takes the configuration and leaves the instance's state, which
  \<^verbatim>\<open>BaseAgent\<close> keeps in \<^verbatim>\<open>self.config\<close>; the method reads that state and the payload.
  Whatever else either does (a call to a service, a log) is a change of a state \<open>'w\<close>
  outside the program, and either may raise. A subclass inherits both from \<^verbatim>\<open>BaseAgent\<close>
  and may override either.
\<close>

record 'w agent_class =
  cls_name :: string
  cls_init :: "pyval \<Rightarrow> 'w \<Rightarrow> (error + pyval) \<times> 'w"
  cls_process :: "pyval \<Rightarrow> pydict \<Rightarrow> 'w \<Rightarrow> (error + pydict) \<times> 'w"

text \<open>
  The state of the process: the module's global \<^verbatim>\<open>AGENT_REGISTRY\<close> and the state
  outside the program that the agents act on.
\<close>

record 'w pystate =
  AGENT_REGISTRY :: "(string \<times> 'w agent_class) list"
  world :: 'w

definition register_agent :: "'w agent_class \<Rightarrow> 'w pystate \<Rightarrow> 'w agent_class \<times> 'w pystate" where
  "register_agent cls s =
     (cls, s\<lparr>AGENT_REGISTRY := AList.update (cls_name cls) cls (AGENT_REGISTRY s)\<rparr>)"

text \<open>
  \<^verbatim>\<open>AGENT_REGISTRY[name]\<close> hashes the key first: a list or a dictionary is not hashable and
  raises \<^verbatim>\<open>TypeError\<close>, which the \<^verbatim>\<open>except KeyError\<close> clause lets through. The keys of the
  registry are strings, so any other hashable value is a missing key.
\<close>

definition get_agent_class :: "pyval \<Rightarrow> 'w pystate \<Rightarrow> (error + 'w agent_class) \<times> 'w pystate" where
  "get_agent_class name s =
     (case name of
        PList xs \<Rightarrow> (Inl TypeError, s)
      | PDict d \<Rightarrow> (Inl TypeError, s)
      | PStr n \<Rightarrow>
          (case map_of (AGENT_REGISTRY s) n of
             Some cls \<Rightarrow> (Inr cls, s)
           | None \<Rightarrow> (Inl (KeyError_not_registered name), s))
      | _ \<Rightarrow> (Inl (KeyError_not_registered name), s))"

section \<open>Agents (\<^verbatim>\<open>agent.py\<close>)\<close>

record 'w agent =
  self_cls :: "'w agent_class"
  self_config :: pyval

text \<open>\<^verbatim>\<open>BaseAgent.__init__\<close>: \<^verbatim>\<open>self.config = config or {}\<close>.\<close>

definition BaseAgent_init :: "pyval \<Rightarrow> 'w \<Rightarrow> (error + pyval) \<times> 'w" where
  "BaseAgent_init config w = (Inr (py_or config (PDict [])), w)"

text \<open>
  The call \<^verbatim>\<open>AgentCls(config)\<close>: a new instance of the class, set up by the class's own
  constructor.
\<close>

definition new_agent ::
  "'w agent_class \<Rightarrow> pyval \<Rightarrow> 'w pystate \<Rightarrow> (error + 'w agent) \<times> 'w pystate" where
  "new_agent AgentCls config s =
     (case cls_init AgentCls config (world s) of
        (Inl e, w) \<Rightarrow> (Inl e, s\<lparr>world := w\<rparr>)
      | (Inr c, w) \<Rightarrow> (Inr \<lparr>self_cls = AgentCls, self_config = c\<rparr>, s\<lparr>world := w\<rparr>))"

text \<open>The call \<^verbatim>\<open>agent.process(payload)\<close>: the method of the agent's class, on its state.\<close>

definition process :: "'w agent \<Rightarrow> pydict \<Rightarrow> 'w pystate \<Rightarrow> (error + pydict) \<times> 'w pystate" where
  "process self payload s =
     (case cls_process (self_cls self) (self_config self) payload (world s) of
        (r, w) \<Rightarrow> (r, s\<lparr>world := w\<rparr>))"

definition BaseAgent_process :: "pyval \<Rightarrow> pydict \<Rightarrow> 'w \<Rightarrow> (error + pydict) \<times> 'w" where
  "BaseAgent_process config payload w = (Inl NotImplementedError, w)"

definition BaseAgent :: "'w agent_class" where
  "BaseAgent =
     \<lparr>cls_name = ''BaseAgent'', cls_init = BaseAgent_init, cls_process = BaseAgent_process\<rparr>"

text \<open>
  \<^verbatim>\<open>EchoAgent.process\<close>. \<^verbatim>\<open>self.config.get\<close> needs a dictionary: a value that is not a
  dictionary has no \<^verbatim>\<open>get\<close>. \<^verbatim>\<open>EchoAgent\<close> defines no \<^verbatim>\<open>__init__\<close>, so its constructor
  is the one of \<^verbatim>\<open>BaseAgent\<close>.
\<close>

definition EchoAgent_process :: "pyval \<Rightarrow> pydict \<Rightarrow> 'w \<Rightarrow> (error + pydict) \<times> 'w" where
  "EchoAgent_process config payload w =
     (let result = payload in
      case config of
        PDict c \<Rightarrow>
          (let prefix = dict_get c ''prefix'' (PStr ''Echo:'');
               result = AList.update ''message''
                 (PStr (py_str prefix @ '' '' @ py_str (dict_get payload ''input'' (PStr ''''))))
                 result
           in (Inr result, w))
      | _ \<Rightarrow> (Inl AttributeError, w))"

definition EchoAgent :: "'w agent_class" where
  "EchoAgent =
     \<lparr>cls_name = ''EchoAgent'', cls_init = BaseAgent_init, cls_process = EchoAgent_process\<rparr>"

text \<open>
  The state once the package is imported: the decorator \<^verbatim>\<open>@register_agent\<close> has run on
  \<^verbatim>\<open>EchoAgent\<close>, from the empty registry.
\<close>

definition imported :: "'w \<Rightarrow> 'w pystate" where
  "imported w = snd (register_agent EchoAgent \<lparr>AGENT_REGISTRY = [], world = w\<rparr>)"

section \<open>The workflow runner\<close>

text \<open>
  The loop of \<^verbatim>\<open>run_workflow\<close> over \<^verbatim>\<open>enumerate(spec["agents"], start=1)\<close>, from position
  \<open>idx\<close> on, with the running payload.
\<close>

fun run_loop :: "nat \<Rightarrow> pyval list \<Rightarrow> pydict \<Rightarrow> 'w pystate \<Rightarrow> (error + pydict) \<times> 'w pystate" where
  "run_loop idx [] payload s = (Inr payload, s)"
| "run_loop idx (agent_def # rest) payload s =
     (case agent_def of
        PDict d \<Rightarrow>
          (case map_of d ''name'' of
             None \<Rightarrow> (Inl (ValueError_position idx), s)
           | Some name \<Rightarrow>
               (let config = dict_get d ''config'' (PDict []) in
                case get_agent_class name s of
                  (Inl e, s1) \<Rightarrow> (Inl e, s1)
                | (Inr AgentCls, s1) \<Rightarrow>
                    (case new_agent AgentCls config s1 of
                       (Inl e, s2) \<Rightarrow> (Inl e, s2)
                     | (Inr agent, s2) \<Rightarrow>
                         (case process agent payload s2 of
                            (Inl e, s3) \<Rightarrow> (Inl e, s3)
                          | (Inr payload', s3) \<Rightarrow> run_loop (Suc idx) rest payload' s3))))
      | _ \<Rightarrow> (Inl (ValueError_position idx), s))"

text \<open>
  \<^verbatim>\<open>run_workflow\<close>, from the value that \<^verbatim>\<open>yaml.safe_load\<close> returned. The initial payload
  is a dictionary or \<^verbatim>\<open>None\<close> (the default), and \<^verbatim>\<open>initial_payload or {}\<close> replaces
  \<^verbatim>\<open>None\<close> and the empty dictionary by a new empty dictionary.
\<close>

definition run_workflow :: "pyval \<Rightarrow> pydict option \<Rightarrow> 'w pystate \<Rightarrow> (error + pydict) \<times> 'w pystate" where
  "run_workflow spec initial_payload s =
     (case spec of
        PDict sp \<Rightarrow>
          (case map_of sp ''agents'' of
             None \<Rightarrow> (Inl ValueError_agents_key, s)
           | Some agents \<Rightarrow>
               (let payload = (case initial_payload of
                                 None \<Rightarrow> []
                               | Some p \<Rightarrow> if p \<noteq> [] then p else [])
                in case py_iter agents of
                     Inl e \<Rightarrow> (Inl e, s)
                   | Inr defs \<Rightarrow> run_loop 1 defs payload s))
      | _ \<Rightarrow> (Inl ValueError_agents_key, s))"

section \<open>Notions of the specification\<close>

text \<open>A run of \<^verbatim>\<open>register_agent\<close> over a sequence of classes, in order.\<close>

definition register_all :: "'w agent_class list \<Rightarrow> 'w pystate \<Rightarrow> 'w pystate" where
  "register_all clss s = foldl (\<lambda>s cls. snd (register_agent cls s)) s clss"

text \<open>The two \<^verbatim>\<open>ValueError\<close>s of the runner are the malformed-specification errors.\<close>

fun is_ValueError :: "error \<Rightarrow> bool" where
  "is_ValueError ValueError_agents_key = True"
| "is_ValueError (ValueError_position i) = True"
| "is_ValueError e = False"

text \<open>
  A well-formed element of the \<^verbatim>\<open>agents\<close> list is a mapping that contains the name field;
  it stands for a step: the identifier, and the configuration when the element has one.
\<close>

definition spec_step_of :: "pyval \<Rightarrow> (pyval \<times> pyval option) option" where
  "spec_step_of x =
     (case x of
        PDict d \<Rightarrow> (case map_of d ''name'' of
                      None \<Rightarrow> None
                    | Some name \<Rightarrow> Some (name, map_of d ''config''))
      | _ \<Rightarrow> None)"

text \<open>
  One step in the specification's words: resolve the agent by name in the registry, construct
  it with the step's configuration (an empty mapping when there is none), and call its
  \<^verbatim>\<open>process\<close> on the running payload.
\<close>

definition spec_apply_step ::
  "pyval \<times> pyval option \<Rightarrow> pydict \<Rightarrow> 'w pystate \<Rightarrow> (error + pydict) \<times> 'w pystate" where
  "spec_apply_step st payload s =
     (case get_agent_class (fst st) s of
        (Inl e, s1) \<Rightarrow> (Inl e, s1)
      | (Inr cls, s1) \<Rightarrow>
          (case new_agent cls (case snd st of None \<Rightarrow> PDict [] | Some c \<Rightarrow> c) s1 of
             (Inl e, s2) \<Rightarrow> (Inl e, s2)
           | (Inr agent, s2) \<Rightarrow> process agent payload s2))"

text \<open>
  The pipeline as a left fold over the steps: the payload a step returns is the input of the
  next one, and the first error is the result.
\<close>

definition spec_fold_steps ::
  "(pyval \<times> pyval option) list \<Rightarrow> pydict \<Rightarrow> 'w pystate \<Rightarrow> (error + pydict) \<times> 'w pystate" where
  "spec_fold_steps steps payload s =
     foldl (\<lambda>acc st. case acc of
                        (Inl e, s1) \<Rightarrow> (Inl e, s1)
                      | (Inr p, s1) \<Rightarrow> spec_apply_step st p s1)
       (Inr payload, s) steps"

text \<open>
  The message of the Echo variant in the specification's words: the configured prefix
  (\<^verbatim>\<open>Echo:\<close> when the configuration is absent or has none), one space, and the value of
  the payload's \<^verbatim>\<open>input\<close> key (the empty string when the payload has none).
\<close>

definition spec_echo_message :: "pydict option \<Rightarrow> pydict \<Rightarrow> pyval" where
  "spec_echo_message cfg p =
     PStr (py_str (case Option.bind cfg (\<lambda>c. map_of c ''prefix'') of
                     None \<Rightarrow> PStr ''Echo:''
                   | Some v \<Rightarrow> v)
           @ '' ''
           @ py_str (case map_of p ''input'' of None \<Rightarrow> PStr '''' | Some v \<Rightarrow> v))"

section \<open>A plug-in agent with its own constructor\<close>

text \<open>
  A subclass of \<^verbatim>\<open>BaseAgent\<close> that overrides the constructor, as a plug-in may:
  \<^verbatim>\<open>
  @register_agent
  class RawAgent(BaseAgent):
      def __init__(self, config=None):
          self.config = config
      def process(self, payload):
          result = dict(payload)
          result["config"] = self.config
          return result
  \<close>
\<close>

definition RawAgent_init :: "pyval \<Rightarrow> 'w \<Rightarrow> (error + pyval) \<times> 'w" where
  "RawAgent_init config w = (Inr config, w)"

definition RawAgent_process :: "pyval \<Rightarrow> pydict \<Rightarrow> 'w \<Rightarrow> (error + pydict) \<times> 'w" where
  "RawAgent_process config payload w = (Inr (AList.update ''config'' config payload), w)"

definition RawAgent :: "'w agent_class" where
  "RawAgent =
     \<lparr>cls_name = ''RawAgent'', cls_init = RawAgent_init, cls_process = RawAgent_process\<rparr>"

section \<open>The loop, step by step\<close>

lemma spec_fold_steps_Nil: "spec_fold_steps [] p s = (Inr p, s)"
  by (simp add: spec_fold_steps_def)

lemma foldl_error_stays:
  "foldl (\<lambda>acc st. case acc of (Inl e, s1) \<Rightarrow> (Inl e, s1) | (Inr p, s1) \<Rightarrow> f st p s1)
     (Inl e, s) steps = (Inl e, s)"
  by (induction steps) simp_all

lemma spec_fold_steps_Cons:
  "spec_fold_steps (st # steps) p s =
     (case spec_apply_step st p s of
        (Inl e, s1) \<Rightarrow> (Inl e, s1)
      | (Inr p1, s1) \<Rightarrow> spec_fold_steps steps p1 s1)"
  by (auto simp: spec_fold_steps_def foldl_error_stays split: prod.splits sum.splits)

lemma run_loop_step:
  assumes "spec_step_of x = Some st"
  shows "run_loop idx (x # rest) p s =
     (case spec_apply_step st p s of
        (Inl e, s1) \<Rightarrow> (Inl e, s1)
      | (Inr p1, s1) \<Rightarrow> run_loop (Suc idx) rest p1 s1)"
proof -
  from assms obtain d name where
    x: "x = PDict d" "map_of d ''name'' = Some name" "st = (name, map_of d ''config'')"
    by (auto simp: spec_step_of_def split: pyval.splits option.splits)
  have cfg: "dict_get d ''config'' (PDict [])
               = (case map_of d ''config'' of None \<Rightarrow> PDict [] | Some c \<Rightarrow> c)"
    by (simp add: dict_get_def)
  obtain r1 s1 where g: "get_agent_class name s = (r1, s1)"
    by (cases "get_agent_class name s")
  show ?thesis
  proof (cases r1)
    case (Inl e)
    then show ?thesis by (simp add: x cfg g spec_apply_step_def)
  next
    case (Inr cls)
    obtain r2 s2 where
      n: "new_agent cls (case map_of d ''config'' of None \<Rightarrow> PDict [] | Some c \<Rightarrow> c) s1 = (r2, s2)"
      by (cases "new_agent cls (case map_of d ''config'' of None \<Rightarrow> PDict [] | Some c \<Rightarrow> c) s1")
    show ?thesis
      by (cases r2) (simp_all add: x cfg g Inr n spec_apply_step_def)
  qed
qed

lemma run_loop_malformed:
  "spec_step_of x = None \<Longrightarrow> run_loop idx (x # rest) p s = (Inl (ValueError_position idx), s)"
  by (auto simp: spec_step_of_def split: pyval.splits option.splits)

lemma run_loop_fold:
  "map spec_step_of defs = map Some steps \<Longrightarrow> run_loop idx defs p s = spec_fold_steps steps p s"
proof (induction defs arbitrary: steps idx p s)
  case Nil
  then show ?case by (simp add: spec_fold_steps_Nil)
next
  case (Cons x defs)
  then obtain st sts where
    st: "steps = st # sts" "spec_step_of x = Some st" "map spec_step_of defs = map Some sts"
    by (cases steps) auto
  show ?case
    using Cons.IH [OF st(3)]
    by (simp add: st(1) run_loop_step [OF st(2)] spec_fold_steps_Cons del: run_loop.simps
          split: prod.splits sum.splits)
qed

lemma run_loop_append:
  "run_loop idx (xs @ ys) p s =
     (case run_loop idx xs p s of
        (Inl e, s1) \<Rightarrow> (Inl e, s1)
      | (Inr p1, s1) \<Rightarrow> run_loop (idx + length xs) ys p1 s1)"
proof (induction xs arbitrary: idx p s)
  case Nil
  then show ?case by simp
next
  case (Cons x xs)
  show ?case
  proof (cases "spec_step_of x")
    case None
    then show ?thesis by (simp add: run_loop_malformed del: run_loop.simps)
  next
    case (Some st)
    show ?thesis
      using Cons.IH
      by (simp add: run_loop_step [OF Some] del: run_loop.simps split: prod.splits sum.splits)
  qed
qed

lemma registry_register_all:
  "map_of (AGENT_REGISTRY (register_all clss s)) n =
     (if n \<in> cls_name ` set clss then Some (last (filter (\<lambda>c. cls_name c = n) clss))
      else map_of (AGENT_REGISTRY s) n)"
  by (induction clss rule: rev_induct)
     (auto simp: register_all_def register_agent_def update_conv')

lemma world_register_all: "world (register_all clss s) = world s"
  by (induction clss rule: rev_induct) (simp_all add: register_all_def register_agent_def)

text \<open>The state after import holds \<^verbatim>\<open>EchoAgent\<close> under its name and nothing else.\<close>

lemma imported_registry: "AGENT_REGISTRY (imported w) = [(''EchoAgent'', EchoAgent)]"
  by (simp add: imported_def register_agent_def EchoAgent_def)

lemma imported_world: "world (imported w) = w"
  by (simp add: imported_def register_agent_def)

lemma imported_world_update: "(imported w)\<lparr>world := w'\<rparr> = imported w'"
  by (simp add: imported_def register_agent_def)

lemma get_agent_class_imported:
  "get_agent_class (PStr ''EchoAgent'') (imported w) = (Inr EchoAgent, imported w)"
  by (simp add: get_agent_class_def imported_registry)

text \<open>A class that keeps the constructor of \<^verbatim>\<open>BaseAgent\<close> is constructed without error or effect.\<close>

lemma new_agent_BaseAgent_init:
  "cls_init cls = BaseAgent_init \<Longrightarrow>
   new_agent cls c s = (Inr \<lparr>self_cls = cls, self_config = py_or c (PDict [])\<rparr>, s)"
  by (simp add: new_agent_def BaseAgent_init_def)

lemma new_agent_EchoAgent:
  "new_agent EchoAgent c s = (Inr \<lparr>self_cls = EchoAgent, self_config = py_or c (PDict [])\<rparr>, s)"
  by (simp add: new_agent_BaseAgent_init EchoAgent_def)

text \<open>
  A truthy configuration that is not a mapping (a string, a number, a list) is kept by the
  constructor, and \<^verbatim>\<open>EchoAgent.process\<close> then raises \<^verbatim>\<open>AttributeError\<close>.
\<close>

lemma EchoAgent_process_not_mapping:
  "truthy c \<Longrightarrow> (\<forall>d. c \<noteq> PDict d) \<Longrightarrow>
   new_agent EchoAgent c s = (Inr \<lparr>self_cls = EchoAgent, self_config = c\<rparr>, s)
   \<and> process \<lparr>self_cls = EchoAgent, self_config = c\<rparr> p s = (Inl AttributeError, s)"
  by (cases c) (simp_all add: new_agent_def BaseAgent_init_def process_def py_or_def EchoAgent_def
                   EchoAgent_process_def)

text \<open>The abstract operation raises \<^verbatim>\<open>NotImplementedError\<close>.\<close>

lemma BaseAgent_process_raises:
  "process \<lparr>self_cls = BaseAgent, self_config = c\<rparr> p s = (Inl NotImplementedError, s)"
  by (simp add: process_def BaseAgent_def BaseAgent_process_def)

section \<open>The registry\<close>

text \<open>
  C8. \<^verbatim>\<open>register_agent\<close> returns the very class it was given. The identifier is the class's
  own \<^verbatim>\<open>__name__\<close>: afterwards the registry maps that identifier to the class, whether it was
  mapped before or not, every other identifier is mapped as before, and nothing else changes.
\<close>

theorem register_agent_returns_cls:
  "fst (register_agent cls s) = cls
   \<and> map_of (AGENT_REGISTRY (snd (register_agent cls s)))
       = (map_of (AGENT_REGISTRY s))(cls_name cls \<mapsto> cls)
   \<and> world (snd (register_agent cls s)) = world s"
  by (simp add: register_agent_def update_conv')

text \<open>
  C5. For an identifier \<open>n\<close> that the registry does not map, \<^verbatim>\<open>get_agent_class\<close> raises the
  \<^verbatim>\<open>KeyError\<close> that carries \<open>n\<close>, and the state, the registry with it, is as before.
\<close>

theorem get_agent_class_unregistered:
  "map_of (AGENT_REGISTRY s) n = None \<Longrightarrow>
   get_agent_class (PStr n) s = (Inl (KeyError_not_registered (PStr n)), s)"
  by (simp add: get_agent_class_def)

theorem get_agent_class_unregistered_witness:
  "map_of (AGENT_REGISTRY (imported ())) ''NonExistentAgent'' = None
   \<and> get_agent_class (PStr ''NonExistentAgent'') (imported ())
       = (Inl (KeyError_not_registered (PStr ''NonExistentAgent'')), imported ())"
  using get_agent_class_unregistered [of "imported ()" "''NonExistentAgent''"]
  by (simp add: imported_registry)

text \<open>
  C6. After any sequence of registrations, an identifier registered at least once resolves
  to the class registered last under it, and the lookup leaves the state as it is. A second
  registration under the same identifier replaces the first: \<^verbatim>\<open>register_agent\<close> has no
  failing case.
\<close>

theorem resolve_last_registered:
  "n \<in> cls_name ` set clss \<Longrightarrow>
   get_agent_class (PStr n) (register_all clss s)
     = (Inr (last (filter (\<lambda>c. cls_name c = n) clss)), register_all clss s)"
  by (simp add: get_agent_class_def registry_register_all)

theorem resolve_last_registered_witness:
  "''MyAgent'' \<in> cls_name ` set [\<lparr>cls_name = ''MyAgent'', cls_init = BaseAgent_init, cls_process = BaseAgent_process\<rparr>,
                                   \<lparr>cls_name = ''Other'', cls_init = BaseAgent_init, cls_process = BaseAgent_process\<rparr>,
                                   \<lparr>cls_name = ''MyAgent'', cls_init = BaseAgent_init, cls_process = EchoAgent_process\<rparr>]
   \<and> fst (get_agent_class (PStr ''MyAgent'')
        (register_all [\<lparr>cls_name = ''MyAgent'', cls_init = BaseAgent_init, cls_process = BaseAgent_process\<rparr>,
                       \<lparr>cls_name = ''Other'', cls_init = BaseAgent_init, cls_process = BaseAgent_process\<rparr>,
                       \<lparr>cls_name = ''MyAgent'', cls_init = BaseAgent_init, cls_process = EchoAgent_process\<rparr>] (imported ())))
       = Inr \<lparr>cls_name = ''MyAgent'', cls_init = BaseAgent_init, cls_process = EchoAgent_process\<rparr>"
  using resolve_last_registered [of "''MyAgent''"
      "[\<lparr>cls_name = ''MyAgent'', cls_init = BaseAgent_init, cls_process = BaseAgent_process\<rparr>,
        \<lparr>cls_name = ''Other'', cls_init = BaseAgent_init, cls_process = BaseAgent_process\<rparr>,
        \<lparr>cls_name = ''MyAgent'', cls_init = BaseAgent_init, cls_process = EchoAgent_process\<rparr>]" "imported ()"]
  by simp

section \<open>The Echo agent\<close>

text \<open>
  C2. For every payload \<open>p\<close> and every configuration (none, or a mapping), the agent that
  \<^verbatim>\<open>EchoAgent(config)\<close> constructs holds that mapping (the empty one for none), and its
  \<^verbatim>\<open>process\<close> returns \<open>p\<close> with the one key \<^verbatim>\<open>message\<close> added or overwritten; its
  value is the configured prefix (\<^verbatim>\<open>Echo:\<close> by default), one space, and the value of \<open>p\<close>'s
  \<^verbatim>\<open>input\<close> key (the empty string by default). As a mapping the result is \<open>p\<close> updated at
  \<^verbatim>\<open>message\<close>, so every other key of \<open>p\<close> is there with its value. Nothing else changes.
\<close>

theorem EchoAgent_process_message:
  "new_agent EchoAgent (case cfg of None \<Rightarrow> PNone | Some c \<Rightarrow> PDict c) s
     = (Inr \<lparr>self_cls = EchoAgent, self_config = PDict (case cfg of None \<Rightarrow> [] | Some c \<Rightarrow> c)\<rparr>, s)
   \<and> process \<lparr>self_cls = EchoAgent, self_config = PDict (case cfg of None \<Rightarrow> [] | Some c \<Rightarrow> c)\<rparr>
         p s
     = (Inr (AList.update ''message'' (spec_echo_message cfg p) p), s)
   \<and> map_of (AList.update ''message'' (spec_echo_message cfg p) p)
       = (map_of p)(''message'' \<mapsto> spec_echo_message cfg p)"
proof (cases cfg)
  case None
  then show ?thesis
    by (simp add: new_agent_def BaseAgent_init_def process_def py_or_def EchoAgent_def EchoAgent_process_def
          spec_echo_message_def dict_get_def update_conv')
next
  case (Some c)
  then show ?thesis
    by (cases "c = []")
       (simp_all add: new_agent_def BaseAgent_init_def process_def py_or_def EchoAgent_def
          EchoAgent_process_def spec_echo_message_def dict_get_def update_conv')
qed

theorem EchoAgent_process_message_witness:
  "new_agent EchoAgent PNone (imported ())
     = (Inr \<lparr>self_cls = EchoAgent, self_config = PDict []\<rparr>, imported ())
   \<and> process \<lparr>self_cls = EchoAgent, self_config = PDict []\<rparr> [(''input'', PStr ''test'')]
         (imported ())
     = (Inr [(''input'', PStr ''test''), (''message'', PStr ''Echo: test'')], imported ())
   \<and> new_agent EchoAgent (PDict [(''prefix'', PStr ''>>'')]) (imported ())
     = (Inr \<lparr>self_cls = EchoAgent, self_config = PDict [(''prefix'', PStr ''>>'')]\<rparr>,
        imported ())
   \<and> process \<lparr>self_cls = EchoAgent, self_config = PDict [(''prefix'', PStr ''>>'')]\<rparr>
         [(''input'', PStr ''hello''), (''message'', PStr ''old'')] (imported ())
     = (Inr [(''input'', PStr ''hello''), (''message'', PStr ''>> hello'')], imported ())"
  using EchoAgent_process_message [of None "imported ()" "[(''input'', PStr ''test'')]"]
    EchoAgent_process_message [of "Some [(''prefix'', PStr ''>>'')]" "imported ()"
      "[(''input'', PStr ''hello''), (''message'', PStr ''old'')]"]
  by (simp add: spec_echo_message_def py_str_def)

section \<open>The workflow runner\<close>

text \<open>
  C4. When the loaded specification is not a mapping, or is a mapping without the key
  \<^verbatim>\<open>agents\<close>, \<^verbatim>\<open>run_workflow\<close> raises the \<^verbatim>\<open>ValueError\<close> whose message names the missing
  \<^verbatim>\<open>agents\<close> list. The state is as before, whatever the registry holds and whatever its
  agents would do: no step has run.
\<close>

theorem run_workflow_missing_agents_key:
  "(\<forall>sp. spec \<noteq> PDict sp) \<or> (\<exists>sp. spec = PDict sp \<and> map_of sp ''agents'' = None) \<Longrightarrow>
   run_workflow spec initial_payload s = (Inl ValueError_agents_key, s)"
  by (cases spec) (auto simp: run_workflow_def)

theorem run_workflow_missing_agents_key_witness:
  "map_of [(''not_agents'', PList [])] ''agents'' = None
   \<and> run_workflow (PDict [(''not_agents'', PList [])]) (Some []) (imported ())
       = (Inl ValueError_agents_key, imported ())
   \<and> (\<forall>sp. PNone \<noteq> PDict sp)
   \<and> run_workflow PNone (Some [(''input'', PStr ''x'')]) (imported ())
       = (Inl ValueError_agents_key, imported ())"
  using run_workflow_missing_agents_key
      [of "PDict [(''not_agents'', PList [])]" "Some []" "imported ()"]
    run_workflow_missing_agents_key [of PNone "Some [(''input'', PStr ''x'')]" "imported ()"]
  by simp

text \<open>
  C7. When the \<^verbatim>\<open>agents\<close> list is empty, \<^verbatim>\<open>run_workflow\<close> returns the initial payload, and
  the empty mapping when no initial payload is given; the state is as before.
\<close>

theorem run_workflow_empty_agents:
  "map_of sp ''agents'' = Some (PList []) \<Longrightarrow>
   run_workflow (PDict sp) (Some p) s = (Inr p, s)
   \<and> run_workflow (PDict sp) None s = (Inr [], s)"
  by (simp add: run_workflow_def)

theorem run_workflow_empty_agents_witness:
  "map_of [(''agents'', PList [])] ''agents'' = Some (PList [])
   \<and> run_workflow (PDict [(''agents'', PList [])]) (Some [(''input'', PStr ''payload'')])
         (imported ())
       = (Inr [(''input'', PStr ''payload'')], imported ())
   \<and> run_workflow (PDict [(''agents'', PList [])]) None (imported ()) = (Inr [], imported ())"
  using run_workflow_empty_agents
      [of "[(''agents'', PList [])]" "[(''input'', PStr ''payload'')]" "imported ()"]
  by simp

text \<open>
  C9. A specification that is a mapping with the key \<^verbatim>\<open>agents\<close> and the value \<^verbatim>\<open>None\<close> under
  it passes the check of the key; the loop then iterates over \<^verbatim>\<open>None\<close>, which raises
  \<^verbatim>\<open>TypeError\<close>, and that is not a \<^verbatim>\<open>ValueError\<close>.
\<close>

theorem run_workflow_agents_None:
  "map_of sp ''agents'' = Some PNone \<Longrightarrow>
   run_workflow (PDict sp) initial_payload s = (Inl TypeError, s) \<and> \<not> is_ValueError TypeError"
  by (simp add: run_workflow_def)

theorem run_workflow_agents_None_witness:
  "map_of [(''agents'', PNone)] ''agents'' = Some PNone
   \<and> run_workflow (PDict [(''agents'', PNone)]) None (imported ()) = (Inl TypeError, imported ())
   \<and> \<not> is_ValueError TypeError"
  using run_workflow_agents_None [of "[(''agents'', PNone)]" None "imported ()"]
  by simp

text \<open>
  C1. When the \<^verbatim>\<open>agents\<close> value is a list of well-formed elements, \<^verbatim>\<open>run_workflow\<close> is the
  left fold of the steps over the payload, in list order, from the initial payload (the empty
  mapping when none is given): each step resolves its agent by name in the registry,
  constructs it with the step's configuration (an empty mapping when the element has none)
  and calls \<^verbatim>\<open>process\<close> on the running payload, whose result is the next step's input. The
  first error ends the fold and is the result.
\<close>

theorem run_workflow_is_fold:
  "map_of sp ''agents'' = Some (PList defs) \<Longrightarrow> map spec_step_of defs = map Some steps \<Longrightarrow>
   run_workflow (PDict sp) initial_payload s
     = spec_fold_steps steps (case initial_payload of None \<Rightarrow> [] | Some p \<Rightarrow> p) s"
  by (cases initial_payload) (simp_all add: run_workflow_def run_loop_fold)

theorem run_workflow_is_fold_witness:
  "map_of [(''agents'', PList
       [PDict [(''name'', PStr ''EchoAgent''), (''config'', PDict [(''prefix'', PStr ''[A]'')])],
        PDict [(''name'', PStr ''EchoAgent''), (''config'', PDict [(''prefix'', PStr ''[B]'')])]])]
     ''agents''
     = Some (PList
       [PDict [(''name'', PStr ''EchoAgent''), (''config'', PDict [(''prefix'', PStr ''[A]'')])],
        PDict [(''name'', PStr ''EchoAgent''), (''config'', PDict [(''prefix'', PStr ''[B]'')])]])
   \<and> map spec_step_of
       [PDict [(''name'', PStr ''EchoAgent''), (''config'', PDict [(''prefix'', PStr ''[A]'')])],
        PDict [(''name'', PStr ''EchoAgent''), (''config'', PDict [(''prefix'', PStr ''[B]'')])]]
     = map Some [(PStr ''EchoAgent'', Some (PDict [(''prefix'', PStr ''[A]'')])),
                 (PStr ''EchoAgent'', Some (PDict [(''prefix'', PStr ''[B]'')]))]
   \<and> run_workflow (PDict [(''agents'', PList
       [PDict [(''name'', PStr ''EchoAgent''), (''config'', PDict [(''prefix'', PStr ''[A]'')])],
        PDict [(''name'', PStr ''EchoAgent''), (''config'', PDict [(''prefix'', PStr ''[B]'')])]])])
       (Some [(''input'', PStr ''payload'')]) (imported ())
     = spec_fold_steps [(PStr ''EchoAgent'', Some (PDict [(''prefix'', PStr ''[A]'')])),
                   (PStr ''EchoAgent'', Some (PDict [(''prefix'', PStr ''[B]'')]))]
         [(''input'', PStr ''payload'')] (imported ())
   \<and> spec_fold_steps [(PStr ''EchoAgent'', Some (PDict [(''prefix'', PStr ''[A]'')])),
                   (PStr ''EchoAgent'', Some (PDict [(''prefix'', PStr ''[B]'')]))]
         [(''input'', PStr ''payload'')] (imported ())
     = (Inr [(''input'', PStr ''payload''), (''message'', PStr ''[B] payload'')], imported ())"
  using run_workflow_is_fold
    [of "[(''agents'', PList
       [PDict [(''name'', PStr ''EchoAgent''), (''config'', PDict [(''prefix'', PStr ''[A]'')])],
        PDict [(''name'', PStr ''EchoAgent''), (''config'', PDict [(''prefix'', PStr ''[B]'')])]])]"
      "[PDict [(''name'', PStr ''EchoAgent''), (''config'', PDict [(''prefix'', PStr ''[A]'')])],
        PDict [(''name'', PStr ''EchoAgent''), (''config'', PDict [(''prefix'', PStr ''[B]'')])]]"
      "[(PStr ''EchoAgent'', Some (PDict [(''prefix'', PStr ''[A]'')])),
        (PStr ''EchoAgent'', Some (PDict [(''prefix'', PStr ''[B]'')]))]"
      "Some [(''input'', PStr ''payload'')]" "imported ()"]
  by (simp add: spec_step_of_def spec_fold_steps_def spec_apply_step_def get_agent_class_imported
        imported_world imported_world_update
        new_agent_def process_def BaseAgent_init_def py_or_def EchoAgent_def
        EchoAgent_process_def dict_get_def py_str_def)

text \<open>
  C3, as the specification states it: whenever some element of the \<^verbatim>\<open>agents\<close> list is not a
  mapping with the name field, \<^verbatim>\<open>run_workflow\<close> raises the \<^verbatim>\<open>ValueError\<close> of its position.
  The elements are checked one at a time, each just before its step runs, so a step that
  fails before the malformed element is reached decides the result. Here the second element
  has no name and the first names a class that is not registered: the result is the
  \<^verbatim>\<open>KeyError\<close> of the first step.
\<close>

theorem run_workflow_malformed_counterexample:
  "spec_step_of (PDict [(''config'', PDict [])]) = None
   \<and> run_workflow
         (PDict [(''agents'', PList [PDict [(''name'', PStr ''NonExistentAgent'')],
                                    PDict [(''config'', PDict [])]])])
         (Some []) (imported ())
       = (Inl (KeyError_not_registered (PStr ''NonExistentAgent'')), imported ())
   \<and> \<not> is_ValueError (KeyError_not_registered (PStr ''NonExistentAgent''))"
  by (simp add: spec_step_of_def run_workflow_def get_agent_class_def imported_registry dict_get_def)

text \<open>
  C3, amended. Let the first element of the \<^verbatim>\<open>agents\<close> list that is not a mapping with the
  name field stand at the 1-based position \<open>length pre + 1\<close>. When the steps before it all
  resolve and process without error, \<^verbatim>\<open>run_workflow\<close> raises the \<^verbatim>\<open>ValueError\<close> that names
  this position (position 1 when the first element is malformed); the steps before it have
  run. When one of them fails, its error is the result.
\<close>

theorem run_workflow_first_malformed:
  "map_of sp ''agents'' = Some (PList (pre @ bad # post)) \<Longrightarrow>
   map spec_step_of pre = map Some steps \<Longrightarrow>
   spec_step_of bad = None \<Longrightarrow>
   run_workflow (PDict sp) initial_payload s =
     (case spec_fold_steps steps (case initial_payload of None \<Rightarrow> [] | Some p \<Rightarrow> p) s of
        (Inl e, s1) \<Rightarrow> (Inl e, s1)
      | (Inr p1, s1) \<Rightarrow> (Inl (ValueError_position (length pre + 1)), s1))"
  by (cases initial_payload)
     (simp_all add: run_workflow_def run_loop_append run_loop_fold run_loop_malformed
        del: run_loop.simps split: prod.splits sum.splits)

theorem run_workflow_first_malformed_witness:
  "map_of [(''agents'', PList ([PDict [(''name'', PStr ''EchoAgent'')]]
                                @ PDict [(''config'', PDict [])] # []))] ''agents''
     = Some (PList ([PDict [(''name'', PStr ''EchoAgent'')]] @ PDict [(''config'', PDict [])] # []))
   \<and> map spec_step_of [PDict [(''name'', PStr ''EchoAgent'')]] = map Some [(PStr ''EchoAgent'', None)]
   \<and> spec_step_of (PDict [(''config'', PDict [])]) = None
   \<and> run_workflow
         (PDict [(''agents'', PList ([PDict [(''name'', PStr ''EchoAgent'')]]
                                     @ PDict [(''config'', PDict [])] # []))])
         (Some []) (imported ())
       = (Inl (ValueError_position 2), imported ())
   \<and> run_workflow (PDict [(''agents'', PList ([] @ PDict [(''config'', PDict [])] # []))])
         (Some []) (imported ())
       = (Inl (ValueError_position 1), imported ())"
  using run_workflow_first_malformed
      [of "[(''agents'', PList ([PDict [(''name'', PStr ''EchoAgent'')]]
                                @ PDict [(''config'', PDict [])] # []))]"
          "[PDict [(''name'', PStr ''EchoAgent'')]]" "PDict [(''config'', PDict [])]" "[]"
          "[(PStr ''EchoAgent'', None)]" "Some []" "imported ()"]
    run_workflow_first_malformed
      [of "[(''agents'', PList ([] @ PDict [(''config'', PDict [])] # []))]"
          "[]" "PDict [(''config'', PDict [])]" "[]" "[]" "Some []" "imported ()"]
  by (simp add: spec_step_of_def spec_fold_steps_def spec_apply_step_def get_agent_class_imported
        imported_world imported_world_update
        new_agent_def process_def BaseAgent_init_def py_or_def EchoAgent_def
        EchoAgent_process_def dict_get_def py_str_def)

text \<open>
  C10, as stated: for every step whose \<^verbatim>\<open>config\<close> field is present and \<^verbatim>\<open>None\<close>, the agent
  that \<^verbatim>\<open>run_workflow\<close> constructs has the configuration \<^verbatim>\<open>{}\<close>. The runner calls the
  constructor of the class it resolved, and hands it \<^verbatim>\<open>None\<close>; a registered class with
  its own \<^verbatim>\<open>__init__\<close> is not bound to replace it. \<^verbatim>\<open>RawAgent\<close> keeps it: its \<^verbatim>\<open>process\<close>
  reports the configuration \<^verbatim>\<open>None\<close>.
\<close>

theorem null_config_counterexample:
  "map_of [(''name'', PStr ''RawAgent''), (''config'', PNone)] ''config'' = Some PNone
   \<and> get_agent_class (PStr ''RawAgent'') (snd (register_agent RawAgent (imported ())))
       = (Inr RawAgent, snd (register_agent RawAgent (imported ())))
   \<and> new_agent RawAgent PNone (snd (register_agent RawAgent (imported ())))
       = (Inr \<lparr>self_cls = RawAgent, self_config = PNone\<rparr>,
          snd (register_agent RawAgent (imported ())))
   \<and> run_workflow
         (PDict [(''agents'', PList [PDict [(''name'', PStr ''RawAgent''), (''config'', PNone)]])])
         (Some []) (snd (register_agent RawAgent (imported ())))
       = (Inr [(''config'', PNone)], snd (register_agent RawAgent (imported ())))
   \<and> PNone \<noteq> PDict []"
  by (simp add: run_workflow_def get_agent_class_def new_agent_def process_def dict_get_def
        register_agent_def imported_registry imported_world RawAgent_def RawAgent_init_def
        RawAgent_process_def EchoAgent_def)

text \<open>
  C10, amended. For a step whose \<^verbatim>\<open>config\<close> field is present and \<^verbatim>\<open>None\<close> and whose class
  keeps the constructor of \<^verbatim>\<open>BaseAgent\<close> (as \<^verbatim>\<open>EchoAgent\<close> does), the runner hands \<^verbatim>\<open>None\<close>
  to the constructor, and \<^verbatim>\<open>BaseAgent.__init__\<close> replaces it by the empty mapping: the agent
  whose \<^verbatim>\<open>process\<close> the loop calls has the configuration \<^verbatim>\<open>{}\<close>. The constructor does so
  for every falsy configuration.
\<close>

theorem null_config_is_empty_mapping:
  "map_of d ''name'' = Some name \<Longrightarrow>
   map_of d ''config'' = Some PNone \<Longrightarrow>
   get_agent_class name s = (Inr cls, s1) \<Longrightarrow>
   cls_init cls = BaseAgent_init \<Longrightarrow>
   dict_get d ''config'' (PDict []) = PNone
   \<and> new_agent cls PNone s1 = (Inr \<lparr>self_cls = cls, self_config = PDict []\<rparr>, s1)
   \<and> run_loop idx (PDict d # rest) payload s =
       (case process \<lparr>self_cls = cls, self_config = PDict []\<rparr> payload s1 of
          (Inl e, s2) \<Rightarrow> (Inl e, s2)
        | (Inr payload', s2) \<Rightarrow> run_loop (Suc idx) rest payload' s2)
   \<and> (\<not> truthy c \<longrightarrow> BaseAgent_init c w = (Inr (PDict []), w))"
  by (simp add: dict_get_def new_agent_def BaseAgent_init_def py_or_def)

theorem null_config_is_empty_mapping_witness:
  "map_of [(''name'', PStr ''EchoAgent''), (''config'', PNone)] ''name'' = Some (PStr ''EchoAgent'')
   \<and> map_of [(''name'', PStr ''EchoAgent''), (''config'', PNone)] ''config'' = Some PNone
   \<and> get_agent_class (PStr ''EchoAgent'') (imported ()) = (Inr EchoAgent, imported ())
   \<and> cls_init (EchoAgent :: unit agent_class) = BaseAgent_init
   \<and> new_agent EchoAgent PNone (imported ())
       = (Inr \<lparr>self_cls = EchoAgent, self_config = PDict []\<rparr>, imported ())
   \<and> run_loop 1 [PDict [(''name'', PStr ''EchoAgent''), (''config'', PNone)]]
         [(''input'', PStr ''x'')] (imported ())
       = (Inr [(''input'', PStr ''x''), (''message'', PStr ''Echo: x'')], imported ())
   \<and> \<not> truthy PNone
   \<and> BaseAgent_init PNone () = (Inr (PDict []), ())"
  using null_config_is_empty_mapping
      [where d = "[(''name'', PStr ''EchoAgent''), (''config'', PNone)]"
         and name = "PStr ''EchoAgent''" and s = "imported ()" and cls = EchoAgent
         and ?s1.0 = "imported ()" and c = PNone and idx = 1 and rest = "[]"
         and payload = "[(''input'', PStr ''x'')]" and w = "()"]
  by (simp add: get_agent_class_imported imported_world imported_world_update
        process_def EchoAgent_def EchoAgent_process_def dict_get_def py_str_def)

end
